theory Spec2Isabelle
  imports Main "HOL-Library.Word" "HOL-Library.Sublist"
begin

section \<open>JavaScript strings and the built-ins the view uses\<close>

text \<open>
  A JavaScript string is a sequence of 16-bit code units; \<open>length\<close>, \<open>slice\<close>,
  \<open>indexOf\<close> and \<open>includes\<close> all count code units.
\<close>

type_synonym jsstring = "16 word list"

definition ascii :: "string \<Rightarrow> jsstring" where
  "ascii s = map (\<lambda>c. of_nat (of_char c)) s"

text \<open>
  \<open>String.prototype.trim\<close> removes leading and trailing WhiteSpace and LineTerminator
  code points (ECMA-262, 22.1.3.32); all of them are single code units.
\<close>

definition isWhiteSpace :: "16 word \<Rightarrow> bool" where
  "isWhiteSpace c =
     (c \<in> set [0x9, 0xA, 0xB, 0xC, 0xD, 0x20, 0xA0, 0x1680, 0x2028, 0x2029,
                0x202F, 0x205F, 0x3000, 0xFEFF]
      \<or> (0x2000 \<le> c \<and> c \<le> 0x200A))"

definition trim :: "jsstring \<Rightarrow> jsstring" where
  "trim s = rev (dropWhile isWhiteSpace (rev (dropWhile isWhiteSpace s)))"

text \<open>\<open>s.includes(sub)\<close>: \<open>sub\<close> occurs in \<open>s\<close> at some position.\<close>

fun includes_str :: "jsstring \<Rightarrow> jsstring \<Rightarrow> bool" where
  "includes_str [] sub = (sub = [])"
| "includes_str (c # cs) sub = (prefix sub (c # cs) \<or> includes_str cs sub)"

text \<open>\<open>s.indexOf(sub)\<close>: the least position at which \<open>sub\<close> occurs, or \<open>-1\<close>.\<close>

fun indexOf :: "jsstring \<Rightarrow> jsstring \<Rightarrow> int" where
  "indexOf [] sub = (if sub = [] then 0 else - 1)"
| "indexOf (c # cs) sub =
     (if prefix sub (c # cs) then 0
      else (let r = indexOf cs sub in if r = - 1 then - 1 else r + 1))"

text \<open>
  \<open>s.slice(start, end)\<close> and \<open>s.slice(start)\<close>: a negative index counts from the end,
  and both ends are clamped to the string.
\<close>

definition sliceIndex :: "jsstring \<Rightarrow> int \<Rightarrow> int" where
  "sliceIndex s i = (let len = int (length s) in if i < 0 then max (len + i) 0 else min i len)"

definition slice :: "jsstring \<Rightarrow> int \<Rightarrow> int \<Rightarrow> jsstring" where
  "slice s start end' =
     (let from = sliceIndex s start; to = sliceIndex s end'
      in take (nat (to - from)) (drop (nat from) s))"

definition sliceFrom :: "jsstring \<Rightarrow> int \<Rightarrow> jsstring" where
  "sliceFrom s start = slice s start (int (length s))"

text \<open>
  \<open>String.prototype.toLowerCase\<close> is a parameter \<open>lc\<close> of every function below that
  calls it, so the general theorems hold for whatever mapping the engine implements.
  The concrete evaluations use \<open>toLowerCase\<close>, which is the built-in on strings made of
  ASCII code units and U+0130: \<open>A\<close>..\<open>Z\<close> go to \<open>a\<close>..\<open>z\<close>, and U+0130 (capital I
  with dot above) goes to the two code units U+0069 U+0307 (Unicode SpecialCasing).
\<close>

definition lowerUnit :: "16 word \<Rightarrow> jsstring" where
  "lowerUnit c =
     (if 0x41 \<le> c \<and> c \<le> 0x5A then [c + 0x20]
      else if c = 0x130 then [0x69, 0x307]
      else [c])"

definition toLowerCase :: "jsstring \<Rightarrow> jsstring" where
  "toLowerCase s = concat (map lowerUnit s)"

section \<open>Data model\<close>

text \<open>
  The values a property of a parsed JSON object can hold. Only \<open>typeof val === 'string'\<close>
  is ever asked of them; arrays and objects are not inspected.
\<close>

datatype jsval = JNull | JString jsstring | JNumber int | JBoolean bool | JObject

text \<open>
  \<open>interface RegionNode { key; id; name; children?; [key: string]: unknown }\<close>.
  \<open>children = None\<close> is a node whose \<open>children\<close> reads as \<open>undefined\<close>; \<open>props\<close>
  holds the remaining properties (the atlas columns) in document order.
\<close>

datatype RegionNode =
  RegionNode (key: jsstring) (id_node: int) (name: jsstring)
             (children: "RegionNode list option") (props: "(jsstring \<times> jsval) list")

text \<open>\<open>node[k]\<close>; \<open>None\<close> is \<open>undefined\<close>.\<close>

definition getProp :: "RegionNode \<Rightarrow> jsstring \<Rightarrow> jsval option" where
  "getProp node k =
     (if k = ascii ''key'' then Some (JString (key node))
      else if k = ascii ''id'' then Some (JNumber (id_node node))
      else if k = ascii ''name'' then Some (JString (name node))
      else if k = ascii ''children'' then
        (case children node of None \<Rightarrow> None | Some cs \<Rightarrow> Some JObject)
      else map_of (props node) k)"

record RegionData =
  rd_atlases :: "jsstring list"
  rd_atlasKeys :: "jsstring list"
  rd_totalRegions :: int
  rd_regions :: "RegionNode list"

text \<open>The \<open>useState\<close> cells of \<open>App\<close> that the logic reads or writes.\<close>

record AppState =
  data :: "RegionNode list"
  atlases :: "jsstring list"
  atlasKeys :: "jsstring list"
  totalRegions :: int
  searchText :: jsstring
  expandedKeys :: "jsstring list"
  loading :: bool

definition initialState :: AppState where
  "initialState =
     \<lparr>data = [], atlases = [], atlasKeys = [], totalRegions = 0, searchText = [],
      expandedKeys = [], loading = True\<rparr>"

section \<open>Highlighting\<close>

datatype segment = Plain jsstring | Matched jsstring

text \<open>
  \<open>highlightText\<close> returns either the text itself or the fragment
  \<open><>{before}<mark>{match}</mark>{after}</>\<close>, here the list of its children.
\<close>

definition highlightText :: "(jsstring \<Rightarrow> jsstring) \<Rightarrow> jsstring \<Rightarrow> jsstring \<Rightarrow> segment list" where
  "highlightText lc text search =
     (if trim search = [] \<or> text = [] then [Plain text]
      else
        (let searchLower = lc search;
             textLower = lc text;
             index = indexOf textLower searchLower
         in if index = - 1 then [Plain text]
            else
              (let before = slice text 0 index;
                   match = slice text index (index + int (length search));
                   after = sliceFrom text (index + int (length search))
               in [Plain before, Matched match, Plain after])))"

section \<open>Collecting keys\<close>

text \<open>
  \<open>traverse\<close> pushes onto the array \<open>keys\<close> of the enclosing \<open>getAllKeys\<close>; the array
  is passed in and returned.
\<close>

fun traverse :: "RegionNode list \<Rightarrow> jsstring list \<Rightarrow> jsstring list" where
  "traverse [] keys = keys"
| "traverse (RegionNode k i n ch ps # items) keys =
     traverse items
       (case ch of
          None \<Rightarrow> keys @ [k]
        | Some cs \<Rightarrow> traverse cs (keys @ [k]))"

definition getAllKeys :: "RegionNode list \<Rightarrow> jsstring list" where
  "getAllKeys nodes = traverse nodes []"

section \<open>Filtering\<close>

definition nameMatch :: "(jsstring \<Rightarrow> jsstring) \<Rightarrow> RegionNode \<Rightarrow> jsstring \<Rightarrow> bool" where
  "nameMatch lc node searchLower = includes_str (lc (name node)) searchLower"

definition acronymMatch ::
  "(jsstring \<Rightarrow> jsstring) \<Rightarrow> jsstring list \<Rightarrow> RegionNode \<Rightarrow> jsstring \<Rightarrow> bool" where
  "acronymMatch lc keys node searchLower =
     list_ex (\<lambda>k. case getProp node k of
                    Some (JString val) \<Rightarrow> includes_str (lc val) searchLower
                  | _ \<Rightarrow> False) keys"

text \<open>
  \<open>filterTree\<close> with its \<open>for\<close> loop: \<open>filterLoop\<close> is the loop, carrying the array
  \<open>result\<close>. The closure variable \<open>atlasKeys\<close> is the parameter \<open>aks\<close>.
\<close>

fun filterTree ::
    "(jsstring \<Rightarrow> jsstring) \<Rightarrow> jsstring list \<Rightarrow> RegionNode list \<Rightarrow> jsstring \<Rightarrow> RegionNode list"
  and filterLoop ::
    "(jsstring \<Rightarrow> jsstring) \<Rightarrow> jsstring list \<Rightarrow> RegionNode list \<Rightarrow> jsstring \<Rightarrow> RegionNode list
       \<Rightarrow> RegionNode list" where
  "filterTree lc aks nodes searchLower = filterLoop lc aks nodes searchLower []"
| "filterLoop lc aks [] searchLower result = result"
| "filterLoop lc aks (RegionNode k i n ch ps # nodes) searchLower result =
     (let node = RegionNode k i n ch ps;
          filteredChildren =
            (case ch of
               None \<Rightarrow> None
             | Some cs \<Rightarrow> Some (filterTree lc aks cs searchLower))
      in filterLoop lc aks nodes searchLower
           (if nameMatch lc node searchLower \<or> acronymMatch lc aks node searchLower
               \<or> (case filteredChildren of None \<Rightarrow> False | Some fc \<Rightarrow> length fc > 0)
            then result @
                   [RegionNode k i n
                      (case filteredChildren of
                         None \<Rightarrow> None
                       | Some fc \<Rightarrow> if length fc > 0 then Some fc else None)
                      ps]
            else result))"

text \<open>
  \<open>filteredData\<close>: the filter runs only when the trimmed search text is non-empty, and it
  runs on the lower-cased, untrimmed search text.
\<close>

definition filteredData :: "(jsstring \<Rightarrow> jsstring) \<Rightarrow> AppState \<Rightarrow> RegionNode list" where
  "filteredData lc st =
     (if trim (searchText st) \<noteq> []
      then filterTree lc (atlasKeys st) (data st) (lc (searchText st))
      else data st)"

section \<open>Expansion state\<close>

definition expandAll :: "AppState \<Rightarrow> AppState" where
  "expandAll st = st\<lparr>expandedKeys := getAllKeys (data st)\<rparr>"

definition collapseAll :: "AppState \<Rightarrow> AppState" where
  "collapseAll st = st\<lparr>expandedKeys := []\<rparr>"

text \<open>The effect that runs after a render in which the search text or the filtered data changed.\<close>

definition autoExpand :: "(jsstring \<Rightarrow> jsstring) \<Rightarrow> AppState \<Rightarrow> AppState" where
  "autoExpand lc st =
     (if trim (searchText st) \<noteq> []
      then st\<lparr>expandedKeys := getAllKeys (filteredData lc st)\<rparr>
      else st)"

definition onExpand :: "bool \<Rightarrow> RegionNode \<Rightarrow> AppState \<Rightarrow> AppState" where
  "onExpand expanded record st =
     (if expanded
      then st\<lparr>expandedKeys := expandedKeys st @ [key record]\<rparr>
      else st\<lparr>expandedKeys := filter (\<lambda>k. k \<noteq> key record) (expandedKeys st)\<rparr>)"

text \<open>
  The match counter \<open>{searchText && <span>{getAllKeys(filteredData).length} matches</span>}\<close>:
  \<open>None\<close> when nothing is rendered.
\<close>

definition matchCount :: "(jsstring \<Rightarrow> jsstring) \<Rightarrow> AppState \<Rightarrow> nat option" where
  "matchCount lc st =
     (if searchText st \<noteq> [] then Some (length (getAllKeys (filteredData lc st))) else None)"

section \<open>Loading the dataset\<close>

text \<open>
  A settled promise. The view together with what the load effect does outside it:
  the arguments of \<open>console.error\<close> and the number of \<open>fetch\<close> calls issued.
\<close>

datatype 'a settled = Fulfilled 'a | Rejected jsstring

record World =
  state :: AppState
  errorLog :: "jsstring list"
  fetchCalls :: nat

text \<open>
  \<open>fetch(..).then(res => res.json()).then(result => {..}).catch(err => {..})\<close>, run once
  on mount: \<open>fetched\<close> is how the \<open>fetch\<close> promise settles and \<open>json\<close> how \<open>res.json()\<close>
  does. A rejection at either stage skips the remaining \<open>then\<close> handlers.
\<close>

definition loadData :: "'r settled \<Rightarrow> ('r \<Rightarrow> RegionData settled) \<Rightarrow> World \<Rightarrow> World" where
  "loadData fetched json w =
     (let w1 = w\<lparr>fetchCalls := fetchCalls w + 1\<rparr>;
          parsed = (case fetched of Rejected err \<Rightarrow> Rejected err | Fulfilled res \<Rightarrow> json res)
      in case parsed of
           Fulfilled result \<Rightarrow>
             w1\<lparr>state := (state w1)\<lparr>data := rd_regions result, atlases := rd_atlases result,
                                     atlasKeys := rd_atlasKeys result,
                                     totalRegions := rd_totalRegions result, loading := False\<rparr>\<rparr>
         | Rejected err \<Rightarrow>
             w1\<lparr>errorLog := errorLog w1 @ [err], state := (state w1)\<lparr>loading := False\<rparr>\<rparr>)"

definition initialWorld :: World where
  "initialWorld = \<lparr>state = initialState, errorLog = [], fetchCalls = 0\<rparr>"

section \<open>Notions of the specification\<close>

definition kids :: "RegionNode \<Rightarrow> RegionNode list" where
  "kids node = (case children node of None \<Rightarrow> [] | Some cs \<Rightarrow> cs)"

text \<open>All nodes of a forest in pre-order: a node, then its subtree's nodes, then its later siblings.\<close>

fun allNodes :: "RegionNode list \<Rightarrow> RegionNode list" where
  "allNodes [] = []"
| "allNodes (RegionNode k i n ch ps # nodes) =
     RegionNode k i n ch ps # (case ch of None \<Rightarrow> [] | Some cs \<Rightarrow> allNodes cs) @ allNodes nodes"

definition descendants :: "RegionNode \<Rightarrow> RegionNode list" where
  "descendants node = allNodes (kids node)"

text \<open>
  The specification's \<open>collectKeys\<close>: visit each node, emit its key, then recurse into its
  children in order.
\<close>

fun collectKeys :: "RegionNode list \<Rightarrow> jsstring list" where
  "collectKeys [] = []"
| "collectKeys (RegionNode k i n ch ps # nodes) =
     k # (case ch of None \<Rightarrow> [] | Some cs \<Rightarrow> collectKeys cs) @ collectKeys nodes"

text \<open>Case-insensitive containment: the lower-cased query is a substring of the lower-cased text.\<close>

definition caseInsensitiveContains :: "(jsstring \<Rightarrow> jsstring) \<Rightarrow> jsstring \<Rightarrow> jsstring \<Rightarrow> bool" where
  "caseInsensitiveContains lc text query = sublist (lc query) (lc text)"

text \<open>
  A node self-matches when its name, or the string value of one of its atlas-key fields,
  contains the query case-insensitively.
\<close>

definition selfMatch ::
  "(jsstring \<Rightarrow> jsstring) \<Rightarrow> jsstring list \<Rightarrow> jsstring \<Rightarrow> RegionNode \<Rightarrow> bool" where
  "selfMatch lc aks query node =
     (caseInsensitiveContains lc (name node) query
      \<or> list_ex (\<lambda>k. case getProp node k of
                       Some (JString val) \<Rightarrow> caseInsensitiveContains lc val query
                     | _ \<Rightarrow> False) aks)"

text \<open>
  What the filter does with one node, given the lower-cased search text: whether it keeps
  the node, and the copy it emits.
\<close>

definition keepNode ::
  "(jsstring \<Rightarrow> jsstring) \<Rightarrow> jsstring list \<Rightarrow> jsstring \<Rightarrow> RegionNode \<Rightarrow> bool" where
  "keepNode lc aks searchLower node =
     (nameMatch lc node searchLower \<or> acronymMatch lc aks node searchLower
      \<or> filterTree lc aks (kids node) searchLower \<noteq> [])"

definition emitNode ::
  "(jsstring \<Rightarrow> jsstring) \<Rightarrow> jsstring list \<Rightarrow> jsstring \<Rightarrow> RegionNode \<Rightarrow> RegionNode" where
  "emitNode lc aks searchLower node =
     RegionNode (key node) (id_node node) (name node)
       (let fc = filterTree lc aks (kids node) searchLower in if fc = [] then None else Some fc)
       (props node)"

text \<open>A forest in which every empty \<open>children\<close> array has been replaced by an absent one.\<close>

fun leafForm :: "RegionNode list \<Rightarrow> RegionNode list" where
  "leafForm [] = []"
| "leafForm (RegionNode k i n ch ps # nodes) =
     RegionNode k i n
       (case ch of None \<Rightarrow> None | Some cs \<Rightarrow> if cs = [] then None else Some (leafForm cs)) ps
     # leafForm nodes"

section \<open>Substring search\<close>

lemma includes_str_sublist: "includes_str s sub \<longleftrightarrow> sublist sub s"
  by (induction s) (auto simp: sublist_Cons_right)

section \<open>Key collection is a pre-order traversal\<close>

lemma traverse_append: "traverse nodes keys = keys @ collectKeys nodes"
  by (induction nodes arbitrary: keys rule: collectKeys.induct) (auto split: option.splits)

lemma collectKeys_allNodes: "collectKeys nodes = map key (allNodes nodes)"
  by (induction nodes rule: collectKeys.induct) (auto split: option.splits)

text \<open>
  Claim C5. \<open>getAllKeys\<close> returns the keys of the forest in pre-order: it agrees with the
  specification's \<open>collectKeys\<close>, and its result is the key of every node of the forest, one
  entry per node, in the order in which a pre-order walk meets the nodes.
\<close>

theorem getAllKeys_preorder:
  "getAllKeys nodes = collectKeys nodes
   \<and> getAllKeys nodes = map key (allNodes nodes)
   \<and> length (getAllKeys nodes) = length (allNodes nodes)"
  by (simp add: getAllKeys_def traverse_append collectKeys_allNodes)

theorem getAllKeys_preorder_witness:
  "getAllKeys
     [RegionNode (ascii ''a'') 1 (ascii ''A'')
        (Some [RegionNode (ascii ''b'') 2 (ascii ''B'') None [],
               RegionNode (ascii ''a'') 3 (ascii ''C'') (Some []) []]) [],
      RegionNode (ascii ''d'') 4 (ascii ''D'') None []]
   = [ascii ''a'', ascii ''b'', ascii ''a'', ascii ''d'']"
  using getAllKeys_preorder
    [of "[RegionNode (ascii ''a'') 1 (ascii ''A'')
            (Some [RegionNode (ascii ''b'') 2 (ascii ''B'') None [],
                   RegionNode (ascii ''a'') 3 (ascii ''C'') (Some []) []]) [],
          RegionNode (ascii ''d'') 4 (ascii ''D'') None []]"]
  by simp

section \<open>The filter loop\<close>

lemma filterLoop_append:
  "filterLoop lc aks nodes sl result = result @ filterLoop lc aks nodes sl []"
proof (induction nodes arbitrary: result)
  case Nil
  show ?case by simp
next
  case (Cons node nodes)
  obtain k i n ch ps where node: "node = RegionNode k i n ch ps" by (cases node)
  show ?case
    unfolding node filterLoop.simps Let_def
    by (subst Cons.IH, subst (2) Cons.IH) simp
qed

lemma filterTree_Nil: "filterTree lc aks [] sl = []"
  by simp

lemma filterTree_Cons:
  "filterTree lc aks (node # nodes) sl =
     (if keepNode lc aks sl node then [emitNode lc aks sl node] else [])
     @ filterTree lc aks nodes sl"
proof -
  obtain k i n ch ps where node: "node = RegionNode k i n ch ps" by (cases node)
  show ?thesis
    unfolding node filterTree.simps filterLoop.simps Let_def
    by (subst filterLoop_append) (auto simp: keepNode_def emitNode_def kids_def split: option.splits)
qed

lemma filterTree_map_filter:
  "filterTree lc aks nodes sl = map (emitNode lc aks sl) (filter (keepNode lc aks sl) nodes)"
  by (induction nodes) (simp_all only: filterTree_Nil filterTree_Cons list.map filter.simps append.simps split: if_splits, auto)

end
